theory Spec2Isabelle
  imports
    Main
    "HOL-Library.Word"
    "HOL-Library.Char_ord"
    "HOL-Library.List_Lexorder"
    "HOL-Library.Multiset"
begin

section \<open>JavaScript values used by the handlers\<close>

text \<open>
  Strings are lists of \<^typ>\<open>char\<close>, read as code units below 256.  A request field, a query
  parameter or an environment variable that is absent (\<^verbatim>\<open>undefined\<close>) is \<open>None\<close>.
  JavaScript treats \<^verbatim>\<open>undefined\<close> and the empty string as falsy.
\<close>

definition truthy :: "string option \<Rightarrow> bool" where
  "truthy v = (case v of None \<Rightarrow> False | Some s \<Rightarrow> s \<noteq> [])"

text \<open>The white space and line terminators of \<^verbatim>\<open>String.prototype.trim\<close> below code unit 256.\<close>

definition is_js_space :: "char \<Rightarrow> bool" where
  "is_js_space c = ((of_char c :: nat) \<in> {9, 10, 11, 12, 13, 32, 160})"

definition js_trim :: "string \<Rightarrow> string" where
  "js_trim s = rev (dropWhile is_js_space (rev (dropWhile is_js_space s)))"

text \<open>\<^verbatim>\<open>Array.prototype.join\<close> on an array of strings.\<close>

fun join :: "string \<Rightarrow> string list \<Rightarrow> string" where
  "join sep [] = []"
| "join sep [x] = x"
| "join sep (x # y # ys) = x @ sep @ join sep (y # ys)"

text \<open>The decimal text of a number, as a template literal prints \<^verbatim>\<open>contacts.length\<close>.\<close>

fun show_nat :: "nat \<Rightarrow> string" where
  "show_nat n =
     (if n < 10 then [''0123456789'' ! n]
      else show_nat (n div 10) @ [''0123456789'' ! (n mod 10)])"

declare show_nat.simps [simp del]

text \<open>
  A value produced by \<^verbatim>\<open>JSON.parse\<close>.  The handlers only look at whether the value is an
  array, at its length and at whether an element is \<^verbatim>\<open>null\<close>; the numeric value of a number
  is never inspected.
\<close>

datatype json =
    JNull
  | JBool bool
  | JNum int
  | JStr string
  | JArr "json list"
  | JObj "(string \<times> json) list"

text \<open>The outcome of \<^verbatim>\<open>JSON.parse(contactsJSON)\<close>: it throws a \<^verbatim>\<open>SyntaxError\<close> or yields a value.\<close>

datatype parse_result = SyntaxError | Parsed json

section \<open>HTTP responses\<close>

text \<open>
  The object built by \<^verbatim>\<open>transformContact\<close>; \<open>contact_id\<close> is its field \<^verbatim>\<open>id\<close> and the date is
  kept as the number of milliseconds that \<^verbatim>\<open>Date.now\<close> returned.  A response is a status and
  a body; the delay before the bulk-send answer is not part of the model.
\<close>

record contact_json =
  contact_id :: string
  contact_name :: string
  contact_phone :: string
  contact_createdAt :: int

datatype body =
    Message string
  | ContactJson contact_json
  | ContactList "contact_json list"
  | Success bool
  | Send "string option"
  | StatusText string
  | ContentJson "string option"
  | DefaultErrorPage

datatype response = Response nat body

fun status :: "response \<Rightarrow> nat" where
  "status (Response s b) = s"

fun payload :: "response \<Rightarrow> body" where
  "payload (Response s b) = b"

section \<open>Process environment\<close>

text \<open>
  The environment variables read by the servers, and \<open>mongo_reachable\<close>: whether the MongoDB
  deployment answers while the request is handled.
\<close>

record env =
  MONGO_URI :: "string option"
  API_KEY :: "string option"
  WEBHOOK_VERIFY_TOKEN :: "string option"
  mongo_reachable :: bool

definition db_up :: "env \<Rightarrow> bool" where
  "db_up e = (truthy (MONGO_URI e) \<and> mongo_reachable e)"

section \<open>ObjectId\<close>

text \<open>
  An ObjectId is 12 bytes.  \<^verbatim>\<open>ObjectId.isValid\<close> accepts a string of 24 hexadecimal digits,
  the cast of such a string reads it as a number, and \<^verbatim>\<open>toString\<close> prints 24 lower-case
  hexadecimal digits.  A route parameter is always a string; the 12-character strings that
  older releases of the driver also accept are never printed by \<^verbatim>\<open>toString\<close> and are left out.
\<close>

type_synonym objectid = "96 word"

definition is_hex :: "char \<Rightarrow> bool" where
  "is_hex c =
     (let n = (of_char c :: nat)
      in (48 \<le> n \<and> n \<le> 57) \<or> (97 \<le> n \<and> n \<le> 102) \<or> (65 \<le> n \<and> n \<le> 70))"

definition hex_digit :: "char \<Rightarrow> nat" where
  "hex_digit c =
     (let n = (of_char c :: nat)
      in if 48 \<le> n \<and> n \<le> 57 then n - 48
         else if 97 \<le> n \<and> n \<le> 102 then n - 87
         else if 65 \<le> n \<and> n \<le> 70 then n - 55
         else 0)"

definition hex_val :: "string \<Rightarrow> nat" where
  "hex_val s = foldl (\<lambda>acc c. 16 * acc + hex_digit c) 0 s"

fun hex_digits :: "nat \<Rightarrow> nat \<Rightarrow> string" where
  "hex_digits 0 n = []"
| "hex_digits (Suc k) n = hex_digits k (n div 16) @ [''0123456789abcdef'' ! (n mod 16)]"

definition ObjectId_isValid :: "string \<Rightarrow> bool" where
  "ObjectId_isValid s = (length s = 24 \<and> list_all is_hex s)"

definition ObjectId_of_string :: "string \<Rightarrow> objectid" where
  "ObjectId_of_string s = of_nat (hex_val s)"

definition ObjectId_toString :: "objectid \<Rightarrow> string" where
  "ObjectId_toString i = hex_digits 24 (unat i)"

section \<open>The Contact model (models/Contact.js)\<close>

text \<open>A stored document of the \<^verbatim>\<open>contacts\<close> collection; \<open>doc_id\<close> is the field \<^verbatim>\<open>_id\<close>.\<close>

record contact_doc =
  doc_id :: objectid
  name :: string
  phone :: string
  createdAt :: int

text \<open>The body of \<^verbatim>\<open>POST /api/contacts\<close>: \<^verbatim>\<open>req.body.name\<close> and \<^verbatim>\<open>req.body.phone\<close>.\<close>

record contact_body =
  body_name :: "string option"
  body_phone :: "string option"

text \<open>
  A document built by \<^verbatim>\<open>new Contact({name, phone})\<close> and not yet validated: the paths may be
  unset.  The ObjectId and the \<^verbatim>\<open>Date.now\<close> default are chosen by the runtime and are inputs
  of the model.
\<close>

record draft =
  draft_id :: objectid
  draft_name :: "string option"
  draft_phone :: "string option"
  draft_createdAt :: int

text \<open>The schema's \<^verbatim>\<open>trim: true\<close> setter on \<open>name\<close> runs when the document is built.\<close>

definition new_Contact :: "objectid \<Rightarrow> int \<Rightarrow> contact_body \<Rightarrow> draft" where
  "new_Contact i now b =
     \<lparr>draft_id = i, draft_name = map_option js_trim (body_name b),
      draft_phone = body_phone b, draft_createdAt = now\<rparr>"

definition is_digit :: "char \<Rightarrow> bool" where
  "is_digit c = (48 \<le> (of_char c :: nat) \<and> (of_char c :: nat) \<le> 57)"

text \<open>
  The schema's \<^verbatim>\<open>match\<close> expression \<^verbatim>\<open>/^\+[1-9]\d{1,14}$/\<close>: a plus sign, one digit from 1
  to 9, then between 1 and 14 further digits, and nothing else.
\<close>

definition phone_match :: "string \<Rightarrow> bool" where
  "phone_match v =
     (case v of
        p # d # ds \<Rightarrow>
          p = CHR ''+'' \<and> 49 \<le> (of_char d :: nat) \<and> (of_char d :: nat) \<le> 57 \<and>
          1 \<le> length ds \<and> length ds \<le> 14 \<and> list_all is_digit ds
      | _ \<Rightarrow> False)"

text \<open>
  The validators of each path, in the schema's order; a path reports its first failing
  validator.  \<^verbatim>\<open>required\<close> on a string rejects an unset path and the empty string.
\<close>

definition validate_name :: "string option \<Rightarrow> string list" where
  "validate_name v =
     (case v of
        None \<Rightarrow> [''Please provide a name'']
      | Some s \<Rightarrow> if s = [] then [''Please provide a name''] else [])"

definition validate_phone :: "string option \<Rightarrow> string list" where
  "validate_phone v =
     (case v of
        None \<Rightarrow> [''Please provide a phone number'']
      | Some s \<Rightarrow>
          if s = [] then [''Please provide a phone number'']
          else if phone_match s then []
          else [''Please provide a valid phone number in E.164 format''])"

definition validate :: "draft \<Rightarrow> string list + (string \<times> string)" where
  "validate d =
     (let errs = validate_name (draft_name d) @ validate_phone (draft_phone d)
      in case (draft_name d, draft_phone d) of
           (Some n, Some p) \<Rightarrow> if errs = [] then Inr (n, p) else Inl errs
         | _ \<Rightarrow> Inl errs)"

text \<open>
  What \<^verbatim>\<open>save()\<close> can throw: a \<^verbatim>\<open>ValidationError\<close> with one message per failing path,
  the server's duplicate-key error (code 11000) raised by the unique index on \<open>_id\<close> or the one
  on \<open>phone\<close>, or another error when the database does not answer.
\<close>

datatype save_error = ValidationError "string list" | DuplicateKey | DbError

definition save :: "bool \<Rightarrow> draft \<Rightarrow> contact_doc list \<Rightarrow> save_error + (contact_doc \<times> contact_doc list)" where
  "save up d coll =
     (case validate d of
        Inl errs \<Rightarrow> Inl (ValidationError errs)
      | Inr (n, p) \<Rightarrow>
          if \<not> up then Inl DbError
          else if list_ex (\<lambda>c. doc_id c = draft_id d \<or> phone c = p) coll then Inl DuplicateKey
          else
            (let doc = \<lparr>doc_id = draft_id d, name = n, phone = p, createdAt = draft_createdAt d\<rparr>
             in Inr (doc, coll @ [doc])))"

text \<open>
  \<^verbatim>\<open>Contact.find().sort({ name: 1 })\<close>: all documents, ordered by \<open>name\<close> ascending under the
  comparison of strings by code unit; \<open>None\<close> when the database does not answer.
\<close>

definition find_sorted :: "bool \<Rightarrow> contact_doc list \<Rightarrow> contact_doc list option" where
  "find_sorted up coll = (if up then Some (sort_key name coll) else None)"

text \<open>\<^verbatim>\<open>Contact.findByIdAndDelete(id)\<close>: removes the document with that \<open>_id\<close> and returns it.\<close>

fun delete_first :: "objectid \<Rightarrow> contact_doc list \<Rightarrow> contact_doc option \<times> contact_doc list" where
  "delete_first i [] = (None, [])"
| "delete_first i (d # ds) =
     (if doc_id d = i then (Some d, ds)
      else (case delete_first i ds of (r, ds') \<Rightarrow> (r, d # ds')))"

definition findByIdAndDelete ::
  "bool \<Rightarrow> string \<Rightarrow> contact_doc list \<Rightarrow> (contact_doc option \<times> contact_doc list) option" where
  "findByIdAndDelete up i coll =
     (if up then Some (delete_first (ObjectId_of_string i) coll) else None)"

definition transformContact :: "contact_doc \<Rightarrow> contact_json" where
  "transformContact c =
     \<lparr>contact_id = ObjectId_toString (doc_id c), contact_name = name c,
      contact_phone = phone c, contact_createdAt = createdAt c\<rparr>"

text \<open>
  The state a collection is in when it is only written through this model: the unique indexes
  hold and every document passed the schema.
\<close>

definition collection_ok :: "contact_doc list \<Rightarrow> bool" where
  "collection_ok coll =
     (distinct (map doc_id coll) \<and> distinct (map phone coll) \<and>
      list_all (\<lambda>c. name c \<noteq> [] \<and> phone_match (phone c)) coll)"

section \<open>Contact routes of the first server (server.js, lines 42--89)\<close>

text \<open>
  This server connects once at start-up; a query issued while there is no connection fails
  and the route answers 500.  The handlers take the collection and return the new one.
\<close>

definition get_contacts :: "env \<Rightarrow> contact_doc list \<Rightarrow> response" where
  "get_contacts e coll =
     (case find_sorted (db_up e) coll of
        None \<Rightarrow> Response 500 (Message ''Server Error: Could not fetch contacts.'')
      | Some cs \<Rightarrow> Response 200 (ContactList (map transformContact cs)))"

definition post_contacts ::
  "env \<Rightarrow> objectid \<Rightarrow> int \<Rightarrow> contact_body \<Rightarrow> contact_doc list \<Rightarrow> response \<times> contact_doc list" where
  "post_contacts e i now b coll =
     (case save (db_up e) (new_Contact i now b) coll of
        Inl DuplicateKey \<Rightarrow> (Response 409 (Message ''Phone number already exists.''), coll)
      | Inl (ValidationError msgs) \<Rightarrow> (Response 400 (Message (join '', '' msgs)), coll)
      | Inl DbError \<Rightarrow> (Response 500 (Message ''Server Error: Could not create contact.''), coll)
      | Inr (saved, coll') \<Rightarrow> (Response 201 (ContactJson (transformContact saved)), coll'))"

definition delete_contacts :: "env \<Rightarrow> string \<Rightarrow> contact_doc list \<Rightarrow> response \<times> contact_doc list" where
  "delete_contacts e i coll =
     (if \<not> ObjectId_isValid i then (Response 400 (Message ''Invalid contact ID format.''), coll)
      else case findByIdAndDelete (db_up e) i coll of
             None \<Rightarrow> (Response 500 (Message ''Server Error: Could not delete contact.''), coll)
           | Some (None, coll') \<Rightarrow> (Response 404 (Message ''Contact not found.''), coll')
           | Some (Some c, coll') \<Rightarrow> (Response 200 (Success True), coll'))"

section \<open>Contact routes of the second server (server.js, lines 205--331)\<close>

text \<open>
  This server connects on demand and caches the connection: \<open>cached_conn\<close> says whether
  \<^verbatim>\<open>cached.conn\<close> is set.  \<^verbatim>\<open>connectToDatabase\<close> throws (\<open>None\<close>) when \<^verbatim>\<open>MONGO_URI\<close> is missing or
  the connection attempt fails; the cached promise is then reset, so the state is unchanged.
\<close>

record world =
  cached_conn :: bool
  collection :: "contact_doc list"

definition connectToDatabase :: "env \<Rightarrow> world \<Rightarrow> world option" where
  "connectToDatabase e w =
     (if cached_conn w then Some w
      else if \<not> truthy (MONGO_URI e) then None
      else if mongo_reachable e then Some (w\<lparr>cached_conn := True\<rparr>)
      else None)"

definition get_contacts2 :: "env \<Rightarrow> world \<Rightarrow> response \<times> world" where
  "get_contacts2 e w =
     (case connectToDatabase e w of
        None \<Rightarrow> (Response 500 (Message ''Server Error: Could not fetch contacts.''), w)
      | Some w1 \<Rightarrow>
          (case find_sorted (mongo_reachable e) (collection w1) of
             None \<Rightarrow> (Response 500 (Message ''Server Error: Could not fetch contacts.''), w1)
           | Some cs \<Rightarrow> (Response 200 (ContactList (map transformContact cs)), w1)))"

definition post_contacts2 ::
  "env \<Rightarrow> objectid \<Rightarrow> int \<Rightarrow> contact_body \<Rightarrow> world \<Rightarrow> response \<times> world" where
  "post_contacts2 e i now b w =
     (case connectToDatabase e w of
        None \<Rightarrow> (Response 500 (Message ''Server Error: Could not create contact.''), w)
      | Some w1 \<Rightarrow>
          (case save (mongo_reachable e) (new_Contact i now b) (collection w1) of
             Inl DuplicateKey \<Rightarrow> (Response 409 (Message ''Phone number already exists.''), w1)
           | Inl (ValidationError msgs) \<Rightarrow> (Response 400 (Message (join '', '' msgs)), w1)
           | Inl DbError \<Rightarrow>
               (Response 500 (Message ''Server Error: Could not create contact.''), w1)
           | Inr (saved, coll') \<Rightarrow>
               (Response 201 (ContactJson (transformContact saved)), w1\<lparr>collection := coll'\<rparr>)))"

definition delete_contacts2 :: "env \<Rightarrow> string \<Rightarrow> world \<Rightarrow> response \<times> world" where
  "delete_contacts2 e i w =
     (case connectToDatabase e w of
        None \<Rightarrow> (Response 500 (Message ''Server Error: Could not delete contact.''), w)
      | Some w1 \<Rightarrow>
          if \<not> ObjectId_isValid i then (Response 400 (Message ''Invalid contact ID format.''), w1)
          else case findByIdAndDelete (mongo_reachable e) i (collection w1) of
                 None \<Rightarrow> (Response 500 (Message ''Server Error: Could not delete contact.''), w1)
               | Some (None, coll') \<Rightarrow>
                   (Response 404 (Message ''Contact not found.''), w1\<lparr>collection := coll'\<rparr>)
               | Some (Some c, coll') \<Rightarrow>
                   (Response 200 (Success True), w1\<lparr>collection := coll'\<rparr>))"

section \<open>Webhook verification (server.js, lines 93--120 and 335--362)\<close>

text \<open>The query parameters \<^verbatim>\<open>hub.mode\<close>, \<^verbatim>\<open>hub.verify_token\<close> and \<^verbatim>\<open>hub.challenge\<close>.\<close>

record webhook_query =
  hub_mode :: "string option"
  hub_verify_token :: "string option"
  hub_challenge :: "string option"

text \<open>\<^verbatim>\<open>process.env.WEBHOOK_VERIFY_TOKEN || "merajWebhookToken"\<close>.\<close>

definition VERIFY_TOKEN :: "env \<Rightarrow> string" where
  "VERIFY_TOKEN e =
     (case WEBHOOK_VERIFY_TOKEN e of
        None \<Rightarrow> ''merajWebhookToken''
      | Some s \<Rightarrow> if s = [] then ''merajWebhookToken'' else s)"

text \<open>
  Both servers define the same handler.  \<^verbatim>\<open>res.send(challenge)\<close> with an absent challenge
  sends an empty body; \<^verbatim>\<open>res.sendStatus(403)\<close> sends the status text.
\<close>

definition get_webhook :: "env \<Rightarrow> webhook_query \<Rightarrow> response" where
  "get_webhook e q =
     (if truthy (hub_mode q) \<and> truthy (hub_verify_token q) then
        (if hub_mode q = Some ''subscribe'' \<and> hub_verify_token q = Some (VERIFY_TOKEN e)
         then Response 200 (Send (hub_challenge q))
         else Response 403 (StatusText ''Forbidden''))
      else Response 400
             (Message ''Missing required query parameters for webhook verification.''))"

section \<open>Bulk send (server.js, lines 124--157 and 366--400)\<close>

record upload =
  originalname :: string
  mimetype :: string

text \<open>
  The decoded multipart request: the text fields, the outcome of \<^verbatim>\<open>JSON.parse\<close> on the
  \<^verbatim>\<open>contacts\<close> field, and \<^verbatim>\<open>req.file\<close>.
\<close>

record bulk_request =
  heading :: "string option"
  content :: "string option"
  contactsJSON :: parse_result
  mediaFile :: "upload option"

text \<open>\<^verbatim>\<open>content && content.trim().length > 0\<close>, used as a condition.\<close>

definition hasTextContent :: "string option \<Rightarrow> bool" where
  "hasTextContent c = (case c of None \<Rightarrow> False | Some s \<Rightarrow> s \<noteq> [] \<and> 0 < length (js_trim s))"

text \<open>
  The logging loop prints \<^verbatim>\<open>${contact.name} (${contact.phone})\<close> for every element.  Reading a
  property of \<^verbatim>\<open>null\<close> throws a \<^verbatim>\<open>TypeError\<close>.  A parsed object yields its own property (the
  last binding of the key, as \<^verbatim>\<open>JSON.parse\<close> keeps it); its prototype is always
  \<^verbatim>\<open>Object.prototype\<close>, which has no \<^verbatim>\<open>name\<close> or \<^verbatim>\<open>phone\<close>, and neither has the prototype of
  a parsed boolean, number, string or array, so every other read is \<^verbatim>\<open>undefined\<close> (\<open>None\<close>).
\<close>

definition own_prop :: "json \<Rightarrow> string \<Rightarrow> json option" where
  "own_prop c k = (case c of JObj kvs \<Rightarrow> map_of (rev kvs) k | _ \<Rightarrow> None)"

text \<open>
  The template literal converts the value read to a string.  The conversion of an object
  calls its \<^verbatim>\<open>toString\<close>: an own property of that name is parsed data and cannot be called,
  and \<^verbatim>\<open>valueOf\<close> (own, or the inherited one that returns the object) gives no primitive, so
  the conversion throws a \<^verbatim>\<open>TypeError\<close>; without such a property the inherited
  \<^verbatim>\<open>toString\<close> answers.  The conversion of an array joins the conversions of its elements
  other than \<^verbatim>\<open>null\<close>.  Primitives, \<^verbatim>\<open>null\<close> and \<^verbatim>\<open>undefined\<close> always convert.
\<close>

fun to_string_throws :: "json \<Rightarrow> bool" where
  "to_string_throws JNull = False"
| "to_string_throws (JBool b) = False"
| "to_string_throws (JNum n) = False"
| "to_string_throws (JStr s) = False"
| "to_string_throws (JArr xs) = list_ex to_string_throws xs"
| "to_string_throws (JObj kvs) = list_ex (\<lambda>kv. fst kv = ''toString'') kvs"

definition prop_throws :: "json \<Rightarrow> string \<Rightarrow> bool" where
  "prop_throws c k = (case own_prop c k of None \<Rightarrow> False | Some v \<Rightarrow> to_string_throws v)"

definition log_line_throws :: "json \<Rightarrow> bool" where
  "log_line_throws c = (c = JNull \<or> prop_throws c ''name'' \<or> prop_throws c ''phone'')"

definition log_throws :: "json list \<Rightarrow> bool" where
  "log_throws cs = list_ex log_line_throws cs"

definition sent_message :: "nat \<Rightarrow> string" where
  "sent_message n = ''Message successfully sent to '' @ show_nat n @ '' contacts.''"

text \<open>
  The part shared by both handlers, from \<^verbatim>\<open>let contacts\<close> on.  An exception that escapes the
  handler reaches the error middleware, given as \<open>on_throw\<close>.
\<close>

definition send_to_contacts :: "response \<Rightarrow> parse_result \<Rightarrow> response" where
  "send_to_contacts on_throw r =
     (case r of
        SyntaxError \<Rightarrow> Response 400 (Message ''Invalid contacts format.'')
      | Parsed v \<Rightarrow>
          (case v of
             JArr cs \<Rightarrow>
               if cs = [] then Response 400 (Message ''No contacts provided or invalid format.'')
               else if log_throws cs then on_throw
               else Response 200 (Message (sent_message (length cs)))
           | _ \<Rightarrow> Response 400 (Message ''No contacts provided or invalid format.'')))"

text \<open>The first server (lines 124--157) has no error middleware: Express answers 500 itself.\<close>

definition post_send_bulk :: "bulk_request \<Rightarrow> response" where
  "post_send_bulk req =
     (if \<not> truthy (content req) then Response 400 (Message ''Message content cannot be empty.'')
      else send_to_contacts (Response 500 DefaultErrorPage) (contactsJSON req))"

text \<open>The second server (lines 366--400), with its generic error handler (lines 405--415).\<close>

definition post_send_bulk2 :: "bulk_request \<Rightarrow> response" where
  "post_send_bulk2 req =
     (if \<not> hasTextContent (content req) \<and> mediaFile req = None then
        Response 400 (Message ''A message must contain either text content or a media file.'')
      else
        send_to_contacts
          (Response 500 (Message ''An internal server error occurred. Please try again later.''))
          (contactsJSON req))"

section \<open>Content generation (server.js, lines 190--277; services/geminiService.ts)\<close>

text \<open>
  The text-generation service is a function from the API key and the prompt to an outcome:
  the call throws, or returns a response whose \<^verbatim>\<open>text\<close> may be undefined.  Every handler returns
  the list of prompts it sent to the service.
\<close>

datatype gen_outcome = GenThrows | GenText "string option"

type_synonym generator = "string \<Rightarrow> string \<Rightarrow> gen_outcome"

definition prompt :: "string \<Rightarrow> string" where
  "prompt h =
     ''You are a marketing expert. Write a short, engaging, and friendly message for a WhatsApp broadcast. The main topic or heading is: ''
     @ [CHR 0x22] @ h @ [CHR 0x22] @
     ''. The message should be concise, clear, and have a compelling call to action if appropriate. Do not include placeholders like ''
     @ [CHR 0x22] @ ''[Your Company Name]'' @ [CHR 0x22] @ ''.''"

text \<open>The client \<^verbatim>\<open>ai\<close> built at process start: \<open>Some key\<close>, or \<open>None\<close> when it stays undefined.\<close>

definition init_ai :: "env \<Rightarrow> string option" where
  "init_ai e = (if truthy (API_KEY e) then API_KEY e else None)"

definition post_generate_content ::
  "string option \<Rightarrow> generator \<Rightarrow> string option \<Rightarrow> response \<times> string list" where
  "post_generate_content ai gen h =
     (case ai of
        None \<Rightarrow> (Response 503 (Message ''AI service is not configured on the server.''), [])
      | Some key \<Rightarrow>
          (case h of
             None \<Rightarrow> (Response 400 (Message ''Heading is required to generate content.''), [])
           | Some hg \<Rightarrow>
               if hg = [] \<or> length (js_trim hg) = 0 then
                 (Response 400 (Message ''Heading is required to generate content.''), [])
               else
                 (case gen key (prompt hg) of
                    GenThrows \<Rightarrow>
                      (Response 500
                         (Message ''Failed to generate AI content. Please check the server logs.''),
                       [prompt hg])
                  | GenText t \<Rightarrow> (Response 200 (ContentJson t), [prompt hg]))))"

text \<open>
  \<^verbatim>\<open>generateMessageContent\<close> of the client-side service: the promise is rejected with a message
  (\<open>Inl\<close>) or resolved with the text.
\<close>

definition generateMessageContent ::
  "env \<Rightarrow> generator \<Rightarrow> string \<Rightarrow> (string + string option) \<times> string list" where
  "generateMessageContent e gen h =
     (case API_KEY e of
        None \<Rightarrow> (Inl ''API key is not configured.'', [])
      | Some key \<Rightarrow>
          if key = [] then (Inl ''API key is not configured.'', [])
          else
            (case gen key (prompt h) of
               GenThrows \<Rightarrow>
                 (Inl ''Failed to generate AI content. Please check the API key and try again.'',
                  [prompt h])
             | GenText t \<Rightarrow> (Inr t, [prompt h])))"

section \<open>Sample inputs\<close>

definition env_up :: env where
  "env_up =
     \<lparr>MONGO_URI = Some ''mongodb://localhost/contacts'', API_KEY = None,
      WEBHOOK_VERIFY_TOKEN = None, mongo_reachable = True\<rparr>"

definition env_secret :: env where
  "env_secret =
     \<lparr>MONGO_URI = None, API_KEY = None, WEBHOOK_VERIFY_TOKEN = Some ''s3cret'',
      mongo_reachable = False\<rparr>"

definition jane :: contact_body where
  "jane = \<lparr>body_name = Some ''Jane Doe'', body_phone = Some ''+12125551234''\<rparr>"

definition zoe :: contact_body where
  "zoe = \<lparr>body_name = Some ''Zoe'', body_phone = Some ''+10000000001''\<rparr>"

definition amy :: contact_body where
  "amy = \<lparr>body_name = Some ''Amy'', body_phone = Some ''+10000000002''\<rparr>"

definition jane_doc :: contact_doc where
  "jane_doc = \<lparr>doc_id = 1, name = ''Jane Doe'', phone = ''+12125551234'', createdAt = 1700000000000\<rparr>"

definition zoe_doc :: contact_doc where
  "zoe_doc = \<lparr>doc_id = 1, name = ''Zoe'', phone = ''+10000000001'', createdAt = 1700000000100\<rparr>"

definition amy_doc :: contact_doc where
  "amy_doc = \<lparr>doc_id = 2, name = ''Amy'', phone = ''+10000000002'', createdAt = 1700000000200\<rparr>"

definition one_recipient :: json where
  "one_recipient = JArr [JObj [(''name'', JStr ''Jane Doe''), (''phone'', JStr ''+12125551234'')]]"

definition photo :: upload where
  "photo = \<lparr>originalname = ''sale.png'', mimetype = ''image/png''\<rparr>"

section \<open>Webhook verification: properties\<close>

lemma VERIFY_TOKEN_nonempty: "VERIFY_TOKEN e \<noteq> []"
  by (simp add: VERIFY_TOKEN_def split: option.split)

text \<open>
  C8, as the code has it.  The handler answers 200 exactly when \<^verbatim>\<open>hub.mode\<close> is
  \<^verbatim>\<open>subscribe\<close> and \<^verbatim>\<open>hub.verify_token\<close> equals the configured secret, and then echoes
  \<^verbatim>\<open>hub.challenge\<close>; it answers 403 exactly when mode and token are both present and non-empty
  but do not both match; it answers 400 exactly when the mode or the token is missing or
  empty.  The challenge is not among the parameters that are checked.
\<close>

theorem webhook_verification:
  "(status (get_webhook e q) = 200 \<longleftrightarrow>
      hub_mode q = Some ''subscribe'' \<and> hub_verify_token q = Some (VERIFY_TOKEN e)) \<and>
   (status (get_webhook e q) = 200 \<longrightarrow>
      get_webhook e q = Response 200 (Send (hub_challenge q))) \<and>
   (status (get_webhook e q) = 403 \<longleftrightarrow>
      truthy (hub_mode q) \<and> truthy (hub_verify_token q) \<and>
      \<not> (hub_mode q = Some ''subscribe'' \<and> hub_verify_token q = Some (VERIFY_TOKEN e))) \<and>
   (status (get_webhook e q) = 400 \<longleftrightarrow>
      \<not> truthy (hub_mode q) \<or> \<not> truthy (hub_verify_token q))"
  using VERIFY_TOKEN_nonempty [of e]
  by (auto simp add: get_webhook_def truthy_def split: option.splits)

theorem webhook_verification_witness:
  "status (get_webhook env_secret
     \<lparr>hub_mode = Some ''subscribe'', hub_verify_token = Some ''s3cret'',
      hub_challenge = Some ''42''\<rparr>) = 200 \<and>
   get_webhook env_secret
     \<lparr>hub_mode = Some ''subscribe'', hub_verify_token = Some ''s3cret'',
      hub_challenge = Some ''42''\<rparr> = Response 200 (Send (Some ''42''))"
  using webhook_verification
    [of env_secret
        "\<lparr>hub_mode = Some ''subscribe'', hub_verify_token = Some ''s3cret'',
          hub_challenge = Some ''42''\<rparr>"]
  by (simp add: VERIFY_TOKEN_def env_secret_def)

text \<open>
  C8 as stated fails: a request with the right mode and token and no \<^verbatim>\<open>hub.challenge\<close> is
  answered 200 with an empty body, not 400.
\<close>

theorem webhook_missing_challenge_counterexample:
  "hub_challenge \<lparr>hub_mode = Some ''subscribe'', hub_verify_token = Some ''s3cret'',
                  hub_challenge = None\<rparr> = None \<and>
   get_webhook env_secret
     \<lparr>hub_mode = Some ''subscribe'', hub_verify_token = Some ''s3cret'', hub_challenge = None\<rparr>
   = Response 200 (Send None)"
  by (simp add: get_webhook_def VERIFY_TOKEN_def truthy_def env_secret_def)

text \<open>
  C10: when \<^verbatim>\<open>WEBHOOK_VERIFY_TOKEN\<close> is absent, a request with mode \<^verbatim>\<open>subscribe\<close> and the token
  \<^verbatim>\<open>merajWebhookToken\<close> is answered 200 with the challenge as the body.
\<close>

theorem webhook_default_token:
  assumes "WEBHOOK_VERIFY_TOKEN e = None"
      and "hub_mode q = Some ''subscribe''"
      and "hub_verify_token q = Some ''merajWebhookToken''"
    shows "get_webhook e q = Response 200 (Send (hub_challenge q))"
  using assms by (simp add: get_webhook_def VERIFY_TOKEN_def truthy_def)

theorem webhook_default_token_witness:
  "WEBHOOK_VERIFY_TOKEN env_up = None \<and>
   get_webhook env_up
     \<lparr>hub_mode = Some ''subscribe'', hub_verify_token = Some ''merajWebhookToken'',
      hub_challenge = Some ''1158201444''\<rparr>
   = Response 200 (Send (Some ''1158201444''))"
  using webhook_default_token
    [of env_up
        "\<lparr>hub_mode = Some ''subscribe'', hub_verify_token = Some ''merajWebhookToken'',
          hub_challenge = Some ''1158201444''\<rparr>"]
  by (simp add: env_up_def)

section \<open>Content generation: properties\<close>

text \<open>With a key configured and a non-blank heading the service is called once.\<close>

lemma configured_calls_service:
  "post_generate_content (Some key) (\<lambda>k p. GenText (Some ''Hello'')) (Some ''Sale'') =
     (Response 200 (ContentJson (Some ''Hello'')), [prompt ''Sale''])"
  by (simp add: post_generate_content_def js_trim_def is_js_space_def)

text \<open>
  C9: when \<^verbatim>\<open>API_KEY\<close> is absent (or empty) at process start, every request to
  \<^verbatim>\<open>/api/generate-content\<close> is answered 503 and \<^verbatim>\<open>generateMessageContent\<close> is rejected, and in
  both cases no prompt is sent to the text-generation service.
\<close>

theorem not_configured_no_call:
  assumes "\<not> truthy (API_KEY e)"
  shows "post_generate_content (init_ai e) gen h =
           (Response 503 (Message ''AI service is not configured on the server.''), []) \<and>
         generateMessageContent e gen t = (Inl ''API key is not configured.'', [])"
  using assms
  by (simp add: post_generate_content_def init_ai_def generateMessageContent_def truthy_def
           split: option.splits)

theorem not_configured_no_call_witness:
  "\<not> truthy (API_KEY env_up) \<and>
   post_generate_content (init_ai env_up) (\<lambda>key p. GenText (Some ''Hello''))
     (Some ''Summer Sale'') =
     (Response 503 (Message ''AI service is not configured on the server.''), []) \<and>
   generateMessageContent env_up (\<lambda>key p. GenText (Some ''Hello'')) ''Summer Sale'' =
     (Inl ''API key is not configured.'', [])"
  using not_configured_no_call
    [of env_up "\<lambda>key p. GenText (Some ''Hello'')" "Some ''Summer Sale''" "''Summer Sale''"]
  by (simp add: truthy_def env_up_def)

section \<open>Bulk send: properties\<close>

lemma hasTextContent_truthy: "hasTextContent c \<Longrightarrow> truthy c"
  by (simp add: hasTextContent_def truthy_def split: option.splits)

lemma send_to_contacts_not_list:
  "\<forall>cs. v = JArr cs \<longrightarrow> cs = [] \<Longrightarrow>
   send_to_contacts r (Parsed v) =
     Response 400 (Message ''No contacts provided or invalid format.'')"
  by (cases v) (simp_all add: send_to_contacts_def)

text \<open>
  C2, as the code has it.  Both handlers look at the message first and at the recipients
  second.  The second server rejects a blank or absent content without media before it parses
  anything; otherwise a recipients field that does not parse is rejected, and then a parsed
  value that is not an array or is an empty array.  The first server runs the checks in the
  same order: a request without media whose content is absent or empty is rejected as an
  empty message, and a request with non-blank content is rejected for recipients that do not
  parse and then for a value that is not an array or is an empty array.  Nothing is said here
  about what the first server does with a message that has media but no content, or only
  white space as content.
\<close>

theorem send_bulk_check_order:
  "(\<not> hasTextContent (content r) \<and> mediaFile r = None \<longrightarrow>
      post_send_bulk2 r =
        Response 400 (Message ''A message must contain either text content or a media file.'')) \<and>
   ((hasTextContent (content r) \<or> mediaFile r \<noteq> None) \<and> contactsJSON r = SyntaxError \<longrightarrow>
      post_send_bulk2 r = Response 400 (Message ''Invalid contacts format.'')) \<and>
   ((hasTextContent (content r) \<or> mediaFile r \<noteq> None) \<and> contactsJSON r = Parsed v \<and>
    (\<forall>cs. v = JArr cs \<longrightarrow> cs = []) \<longrightarrow>
      post_send_bulk2 r = Response 400 (Message ''No contacts provided or invalid format.'')) \<and>
   (\<not> truthy (content r) \<and> mediaFile r = None \<longrightarrow>
      post_send_bulk r = Response 400 (Message ''Message content cannot be empty.'')) \<and>
   (hasTextContent (content r) \<and> contactsJSON r = SyntaxError \<longrightarrow>
      post_send_bulk r = Response 400 (Message ''Invalid contacts format.'')) \<and>
   (hasTextContent (content r) \<and> contactsJSON r = Parsed v \<and>
    (\<forall>cs. v = JArr cs \<longrightarrow> cs = []) \<longrightarrow>
      post_send_bulk r = Response 400 (Message ''No contacts provided or invalid format.''))"
  using send_to_contacts_not_list [of v] hasTextContent_truthy [of "content r"]
  by (auto simp add: post_send_bulk2_def post_send_bulk_def send_to_contacts_def)

theorem send_bulk_check_order_witness:
  "post_send_bulk2
     \<lparr>heading = None, content = Some ''  '', contactsJSON = SyntaxError, mediaFile = None\<rparr>
     = Response 400 (Message ''A message must contain either text content or a media file.'') \<and>
   post_send_bulk2
     \<lparr>heading = None, content = Some ''Hi'', contactsJSON = SyntaxError, mediaFile = None\<rparr>
     = Response 400 (Message ''Invalid contacts format.'') \<and>
   post_send_bulk2
     \<lparr>heading = None, content = Some ''Hi'', contactsJSON = Parsed (JArr []), mediaFile = None\<rparr>
     = Response 400 (Message ''No contacts provided or invalid format.'') \<and>
   post_send_bulk
     \<lparr>heading = None, content = None, contactsJSON = SyntaxError, mediaFile = None\<rparr>
     = Response 400 (Message ''Message content cannot be empty.'') \<and>
   post_send_bulk
     \<lparr>heading = None, content = Some ''Hi'', contactsJSON = SyntaxError, mediaFile = None\<rparr>
     = Response 400 (Message ''Invalid contacts format.'') \<and>
   post_send_bulk
     \<lparr>heading = None, content = Some ''Hi'', contactsJSON = Parsed (JArr []), mediaFile = None\<rparr>
     = Response 400 (Message ''No contacts provided or invalid format.'')"
  using
    send_bulk_check_order
      [of "\<lparr>heading = None, content = Some ''  '', contactsJSON = SyntaxError, mediaFile = None\<rparr>"
          "JArr []"]
    send_bulk_check_order
      [of "\<lparr>heading = None, content = Some ''Hi'', contactsJSON = SyntaxError, mediaFile = None\<rparr>"
          "JArr []"]
    send_bulk_check_order
      [of "\<lparr>heading = None, content = Some ''Hi'', contactsJSON = Parsed (JArr []),
            mediaFile = None\<rparr>" "JArr []"]
    send_bulk_check_order
      [of "\<lparr>heading = None, content = None, contactsJSON = SyntaxError, mediaFile = None\<rparr>"
          "JArr []"]
  by (simp add: hasTextContent_def js_trim_def is_js_space_def truthy_def)

text \<open>
  C2 as stated fails: with a recipients field that does not parse, an empty content and no
  media, the error reported is the one about the empty message, not the one about the
  recipients.
\<close>

theorem send_bulk_parse_first_counterexample:
  "post_send_bulk2
     \<lparr>heading = Some ''Sale'', content = Some '''', contactsJSON = SyntaxError, mediaFile = None\<rparr>
   = Response 400 (Message ''A message must contain either text content or a media file.'') \<and>
   post_send_bulk2
     \<lparr>heading = Some ''Sale'', content = Some '''', contactsJSON = SyntaxError, mediaFile = None\<rparr>
   \<noteq> Response 400 (Message ''Invalid contacts format.'')"
  by (simp add: post_send_bulk2_def hasTextContent_def)

text \<open>
  The second server rejects a message as empty exactly when the content is blank or absent
  and no media is attached, and it accepts a media-only message to a non-empty list of
  recipients on which the logging loop does not throw.
\<close>

lemma send_bulk2_empty_message_iff:
  "post_send_bulk2 r =
     Response 400 (Message ''A message must contain either text content or a media file.'')
   \<longleftrightarrow> \<not> hasTextContent (content r) \<and> mediaFile r = None"
  by (auto simp add: post_send_bulk2_def send_to_contacts_def
        split: parse_result.splits json.splits)

lemma send_bulk2_media_only_accepted:
  assumes "\<not> hasTextContent (content r)" and "mediaFile r \<noteq> None"
      and "contactsJSON r = Parsed (JArr cs)" and "cs \<noteq> []" and "\<not> log_throws cs"
    shows "post_send_bulk2 r = Response 200 (Message (sent_message (length cs)))"
  using assms by (simp add: post_send_bulk2_def send_to_contacts_def)

text \<open>
  Recipients that are contact-shaped, that is objects whose \<^verbatim>\<open>name\<close> and \<^verbatim>\<open>phone\<close> are
  strings, never make the logging loop throw.
\<close>

lemma contact_shaped_no_throw:
  assumes "\<forall>c \<in> set cs. \<exists>n p. own_prop c ''name'' = Some (JStr n) \<and>
                                   own_prop c ''phone'' = Some (JStr p)"
  shows "\<not> log_throws cs"
proof -
  have "\<not> log_line_throws c" if mem: "c \<in> set cs" for c
  proof -
    from assms mem obtain n p
      where np: "own_prop c ''name'' = Some (JStr n)" "own_prop c ''phone'' = Some (JStr p)"
      by blast
    have "c \<noteq> JNull"
      using np(1) by (auto simp add: own_prop_def)
    with np show ?thesis
      by (simp add: log_line_throws_def prop_throws_def)
  qed
  then show ?thesis
    by (simp add: log_throws_def list_ex_iff)
qed

text \<open>
  A recipient that is \<^verbatim>\<open>null\<close>, or whose name cannot be converted to a string, makes the loop
  throw after the checks: both servers answer 500.
\<close>

lemma send_bulk_unprintable_recipient:
  "post_send_bulk2
     \<lparr>heading = None, content = Some ''Hi'',
      contactsJSON = Parsed (JArr [JObj [(''name'', JObj [(''toString'', JNum 1)]),
                                         (''phone'', JStr ''+12125551234'')]]),
      mediaFile = None\<rparr>
   = Response 500 (Message ''An internal server error occurred. Please try again later.'') \<and>
   post_send_bulk
     \<lparr>heading = None, content = Some ''Hi'', contactsJSON = Parsed (JArr [JNull]),
      mediaFile = None\<rparr>
   = Response 500 DefaultErrorPage"
  by (simp add: post_send_bulk_def post_send_bulk2_def truthy_def hasTextContent_def
        js_trim_def is_js_space_def send_to_contacts_def log_throws_def log_line_throws_def
        prop_throws_def own_prop_def)

text \<open>
  C3 at a media-only request with one recipient: the first server (lines 124--157) rejects
  it because the content is empty, although a media file is attached; the second server
  (lines 366--400) accepts the same request.
\<close>

theorem send_bulk_media_only_rejected:
  "post_send_bulk
     \<lparr>heading = Some ''Sale'', content = Some '''', contactsJSON = Parsed one_recipient,
      mediaFile = Some photo\<rparr>
   = Response 400 (Message ''Message content cannot be empty.'') \<and>
   post_send_bulk2
     \<lparr>heading = Some ''Sale'', content = Some '''', contactsJSON = Parsed one_recipient,
      mediaFile = Some photo\<rparr>
   = Response 200 (Message ''Message successfully sent to 1 contacts.'')"
  by (simp add: post_send_bulk_def post_send_bulk2_def truthy_def hasTextContent_def
        send_to_contacts_def one_recipient_def log_throws_def log_line_throws_def
        prop_throws_def own_prop_def sent_message_def show_nat.simps)

section \<open>Contacts: properties\<close>

subsection \<open>ObjectId text\<close>

lemma below_16: "(m::nat) < 16 \<longleftrightarrow> m \<in> {0, 1, 2, 3, 4, 5, 6, 7, 8, 9, 10, 11, 12, 13, 14, 15}"
  by (simp only: insert_iff empty_iff) presburger

lemma hex_table_is_hex: "m < 16 \<Longrightarrow> is_hex (''0123456789abcdef'' ! m)"
  unfolding below_16 by (auto simp add: is_hex_def)

lemma hex_table_digit: "m < 16 \<Longrightarrow> hex_digit (''0123456789abcdef'' ! m) = m"
  unfolding below_16 by (auto simp add: hex_digit_def)

lemma length_hex_digits: "length (hex_digits k n) = k"
  by (induction k arbitrary: n) simp_all

lemma hex_digits_all_hex: "list_all is_hex (hex_digits k n)"
  by (induction k arbitrary: n) (simp_all add: hex_table_is_hex)

lemma hex_val_snoc: "hex_val (s @ [c]) = 16 * hex_val s + hex_digit c"
  by (simp add: hex_val_def)

lemma hex_val_hex_digits: "hex_val (hex_digits k n) = n mod 16 ^ k"
proof (induction k arbitrary: n)
  case 0
  show ?case by (simp add: hex_val_def)
next
  case (Suc k)
  have "hex_val (hex_digits (Suc k) n) = 16 * (n div 16 mod 16 ^ k) + n mod 16"
    by (simp add: hex_val_snoc Suc.IH hex_table_digit)
  also have "\<dots> = n mod 16 ^ Suc k"
    by (simp add: mod_mult2_eq)
  finally show ?case .
qed

text \<open>The text of an ObjectId is valid and is cast back to the same ObjectId.\<close>

lemma ObjectId_toString_valid: "ObjectId_isValid (ObjectId_toString i)"
  by (simp add: ObjectId_isValid_def ObjectId_toString_def length_hex_digits hex_digits_all_hex)

lemma ObjectId_roundtrip: "ObjectId_of_string (ObjectId_toString i) = i"
proof -
  have "unat i < 16 ^ 24"
    using unsigned_less [of i, where ?'a = nat] by simp
  then have "unat i mod 16 ^ 24 = unat i"
    by simp
  then show ?thesis
    by (simp add: ObjectId_of_string_def ObjectId_toString_def hex_val_hex_digits)
qed

subsection \<open>Deleting\<close>

lemma delete_first_absent: "i \<notin> doc_id ` set coll \<Longrightarrow> delete_first i coll = (None, coll)"
  by (induction coll) auto

lemma delete_first_present:
  "d \<in> set coll \<Longrightarrow> \<exists>c coll'. delete_first (doc_id d) coll = (Some c, coll')"
  by (induction coll) (auto split: prod.splits)

lemma delete_first_subset: "delete_first i coll = (r, coll') \<Longrightarrow> set coll' \<subseteq> set coll"
  by (induction coll arbitrary: r coll') (auto split: if_splits prod.splits)

lemma delete_first_removes:
  "distinct (map doc_id coll) \<Longrightarrow> delete_first i coll = (Some c, coll') \<Longrightarrow>
   i \<notin> doc_id ` set coll'"
proof (induction coll arbitrary: coll')
  case Nil
  then show ?case by simp
next
  case (Cons d ds)
  show ?case
  proof (cases "doc_id d = i")
    case True
    with Cons.prems show ?thesis by auto
  next
    case False
    obtain r ds' where rec: "delete_first i ds = (r, ds')"
      by (cases "delete_first i ds")
    with False Cons.prems have "r = Some c" and "coll' = d # ds'"
      by auto
    with Cons.IH [of ds'] Cons.prems rec False show ?thesis
      by auto
  qed
qed


lemma hex_digits_numeral:
  "hex_digits (numeral k) n =
     hex_digits (pred_numeral k) (n div 16) @ [''0123456789abcdef'' ! (n mod 16)]"
  by (simp only: numeral_eq_Suc hex_digits.simps)

lemma hex_digits_1: "hex_digits 1 n = [''0123456789abcdef'' ! (n mod 16)]"
  by (simp add: One_nat_def del: One_nat_def [symmetric])

lemma ObjectId_toString_example: "ObjectId_toString 26 = ''00000000000000000000001a''"
  by (simp add: ObjectId_toString_def hex_digits_numeral hex_digits_1)

lemma ObjectId_of_string_example: "ObjectId_of_string ''00000000000000000000001A'' = 26"
  by (simp add: ObjectId_of_string_def hex_val_def hex_digit_def)

lemma ObjectId_isValid_example:
  "ObjectId_isValid ''00000000000000000000001A'' \<and> \<not> ObjectId_isValid ''xyz''"
  by (simp add: ObjectId_isValid_def is_hex_def)

subsection \<open>Phone shape\<close>

lemma zero_char: "(of_char d :: nat) = 48 \<longleftrightarrow> d = CHR ''0''"
proof -
  have "(48::nat) = of_char CHR ''0''" by simp
  then show ?thesis by (simp only: of_char_eq_iff)
qed

text \<open>The strings that match: a plus sign and 2 to 15 digits, the first of them not 0.\<close>

lemma phone_match_iff:
  "phone_match v \<longleftrightarrow>
     (\<exists>d ds. v = CHR ''+'' # d # ds \<and> list_all is_digit (d # ds) \<and> d \<noteq> CHR ''0'' \<and>
              2 \<le> length (d # ds) \<and> length (d # ds) \<le> 15)"
proof (cases v)
  case Nil
  then show ?thesis by (simp add: phone_match_def)
next
  case (Cons p r)
  show ?thesis
  proof (cases r)
    case Nil
    with Cons show ?thesis by (simp add: phone_match_def)
  next
    case (Cons d ds)
    have "49 \<le> (of_char d :: nat) \<and> (of_char d :: nat) \<le> 57 \<longleftrightarrow> is_digit d \<and> d \<noteq> CHR ''0''"
      using zero_char [of d] by (auto simp add: is_digit_def)
    with Cons \<open>v = p # r\<close> show ?thesis
      by (auto simp add: phone_match_def)
  qed
qed

lemma phone_match_nonempty: "phone_match v \<Longrightarrow> v \<noteq> []"
  by (auto simp add: phone_match_def)

subsection \<open>Validation and saving\<close>

lemma validate_phone_invalid: "\<not> phone_match ph \<Longrightarrow> validate_phone (Some ph) \<noteq> []"
  by (simp add: validate_phone_def)

lemma validate_phone_valid: "phone_match ph \<Longrightarrow> validate_phone (Some ph) = []"
  by (auto simp add: validate_phone_def dest: phone_match_nonempty)

lemma validate_invalid_phone:
  assumes "body_phone b = Some ph" and "\<not> phone_match ph"
  shows "validate (new_Contact i now b) =
           Inl (validate_name (map_option js_trim (body_name b)) @ validate_phone (Some ph))"
  using assms validate_phone_invalid [of ph]
  by (cases "body_name b") (simp_all add: validate_def new_Contact_def Let_def)

lemma validate_valid:
  assumes "body_name b = Some nm" and "js_trim nm \<noteq> []"
      and "body_phone b = Some ph" and "phone_match ph"
  shows "validate (new_Contact i now b) = Inr (js_trim nm, ph)"
  using assms validate_phone_valid [of ph]
  by (simp add: validate_def new_Contact_def validate_name_def Let_def)

lemma validate_Inr:
  "validate (new_Contact i now b) = Inr (n, p) \<Longrightarrow>
   body_phone b = Some p \<and> phone_match p \<and> n \<noteq> []"
  by (auto simp add: validate_def new_Contact_def validate_name_def validate_phone_def Let_def
        split: option.splits if_splits)

lemma connect_keeps_collection:
  "connectToDatabase e w = Some w1 \<Longrightarrow> collection w1 = collection w"
  by (auto simp add: connectToDatabase_def split: if_splits)

lemma connect_when_up:
  "db_up e \<Longrightarrow> \<exists>w1. connectToDatabase e w = Some w1 \<and> cached_conn w1"
  by (cases "cached_conn w") (simp_all add: connectToDatabase_def db_up_def)

lemma save_duplicate_phone:
  assumes "body_phone b = Some ph" and "ph \<in> phone ` set coll"
  shows "\<exists>err. save up (new_Contact i now b) coll = Inl err"
proof (cases "validate (new_Contact i now b)")
  case (Inl errs)
  then show ?thesis by (simp add: save_def)
next
  case (Inr np)
  obtain n p where np: "np = (n, p)" by (cases np)
  with Inr validate_Inr [of i now b n p] assms(1) have "p = ph" by simp
  with assms(2) have "list_ex (\<lambda>c. doc_id c = draft_id (new_Contact i now b) \<or> phone c = p) coll"
    by (auto simp add: list_ex_iff)
  with Inr np show ?thesis by (simp add: save_def)
qed

text \<open>
  C4: a request whose phone is a string that does not match the expression is answered 400
  with the validation messages, and the collection is unchanged.  The first server answers
  so whatever the state of the database, because validation runs before the insert; the
  second server answers so whenever \<^verbatim>\<open>connectToDatabase\<close> succeeds (otherwise 500), and never
  changes the collection.
\<close>

theorem invalid_phone_rejected:
  assumes "body_phone b = Some ph" and "\<not> phone_match ph"
  shows "post_contacts e i now b coll =
           (Response 400
              (Message (join '', ''
                 (validate_name (map_option js_trim (body_name b)) @ validate_phone (Some ph)))),
            coll) \<and>
         validate_phone (Some ph) \<noteq> [] \<and>
         collection (snd (post_contacts2 e i now b w)) = collection w \<and>
         (connectToDatabase e w \<noteq> None \<longrightarrow> status (fst (post_contacts2 e i now b w)) = 400)"
proof -
  have v: "save up (new_Contact i now b) c =
        Inl (ValidationError
               (validate_name (map_option js_trim (body_name b)) @ validate_phone (Some ph)))"
    for up c
    using validate_invalid_phone [OF assms] by (simp add: save_def)
  have coll_conn: "collection w1 = collection w" if "connectToDatabase e w = Some w1" for w1
    using that by (auto simp add: connectToDatabase_def split: if_splits)
  show ?thesis
    using validate_phone_invalid [OF assms(2)] coll_conn
    by (auto simp add: post_contacts_def post_contacts2_def v split: option.splits)
qed

text \<open>
  C1: when the phone of the request is already the phone of a stored contact, nothing is
  inserted, on either server and whatever else the request holds; and when the database
  answers and the name passes validation, the answer is 409 with the message
  \<^verbatim>\<open>Phone number already exists.\<close>
\<close>

theorem duplicate_phone_conflict:
  assumes "collection_ok coll" and "ph \<in> phone ` set coll" and "body_phone b = Some ph"
      and "collection w = coll"
  shows "snd (post_contacts e i now b coll) = coll \<and>
         collection (snd (post_contacts2 e i now b w)) = coll \<and>
         (db_up e \<and> body_name b = Some nm \<and> js_trim nm \<noteq> [] \<longrightarrow>
            post_contacts e i now b coll =
              (Response 409 (Message ''Phone number already exists.''), coll) \<and>
            fst (post_contacts2 e i now b w) =
              Response 409 (Message ''Phone number already exists.''))"
proof -
  have coll_conn: "collection w1 = coll" if "connectToDatabase e w = Some w1" for w1
    using that assms(4) by (auto simp add: connectToDatabase_def split: if_splits)
  have unchanged1: "snd (post_contacts e i now b coll) = coll"
    using save_duplicate_phone [OF assms(3) assms(2), of "db_up e" i now]
    by (auto simp add: post_contacts_def split: sum.splits save_error.splits)
  have unchanged2: "collection (snd (post_contacts2 e i now b w)) = coll"
  proof (cases "connectToDatabase e w")
    case None
    then show ?thesis using assms(4) by (simp add: post_contacts2_def)
  next
    case (Some w1)
    then show ?thesis
      using save_duplicate_phone [OF assms(3) assms(2), of "mongo_reachable e" i now]
        coll_conn [OF Some]
      by (auto simp add: post_contacts2_def split: sum.splits save_error.splits)
  qed
  have conflict: "post_contacts e i now b coll =
              (Response 409 (Message ''Phone number already exists.''), coll) \<and>
            fst (post_contacts2 e i now b w) =
              Response 409 (Message ''Phone number already exists.'')"
    if up: "db_up e" and n: "body_name b = Some nm" "js_trim nm \<noteq> []"
  proof -
    have "phone_match ph"
      using assms(1,2) by (auto simp add: collection_ok_def list_all_iff)
    then have v: "validate (new_Contact i now b) = Inr (js_trim nm, ph)"
      using validate_valid [OF n assms(3)] by simp
    have dup: "list_ex (\<lambda>c. doc_id c = draft_id (new_Contact i now b) \<or> phone c = ph) coll"
      using assms(2) by (auto simp add: list_ex_iff)
    have s: "save True (new_Contact i now b) coll = Inl DuplicateKey"
      using v dup by (simp add: save_def)
    obtain w1 where c: "connectToDatabase e w = Some w1"
      using connect_when_up [OF up] by blast
    have r: "mongo_reachable e" using up by (simp add: db_up_def)
    show ?thesis
      using s up c r coll_conn [OF c]
      by (simp add: post_contacts_def post_contacts2_def)
  qed
  show ?thesis using unchanged1 unchanged2 conflict by blast
qed

lemma jane_trim: "js_trim ''Jane Doe'' = ''Jane Doe''"
  by (simp add: js_trim_def is_js_space_def)

lemma jane_ok: "collection_ok [jane_doc]"
  by (simp add: collection_ok_def jane_doc_def phone_match_def is_digit_def)

theorem duplicate_phone_conflict_witness:
  "collection_ok [jane_doc] \<and>
   ''+12125551234'' \<in> phone ` set [jane_doc] \<and>
   post_contacts env_up 2 1700000000500 jane [jane_doc] =
     (Response 409 (Message ''Phone number already exists.''), [jane_doc]) \<and>
   fst (post_contacts2 env_up 2 1700000000500 jane \<lparr>cached_conn = False, collection = [jane_doc]\<rparr>) =
     Response 409 (Message ''Phone number already exists.'')"
  using duplicate_phone_conflict
    [of "[jane_doc]" "''+12125551234''" jane
        "\<lparr>cached_conn = False, collection = [jane_doc]\<rparr>" env_up 2 1700000000500 "''Jane Doe''"]
    jane_ok jane_trim
  by (simp add: jane_def jane_doc_def env_up_def db_up_def truthy_def)

theorem invalid_phone_rejected_witness:
  "\<not> phone_match ''12125551234'' \<and>
   post_contacts env_up 2 1700000000500
     \<lparr>body_name = Some ''Jane Doe'', body_phone = Some ''12125551234''\<rparr> [] =
     (Response 400 (Message ''Please provide a valid phone number in E.164 format''), []) \<and>
   status (fst (post_contacts2 env_up 2 1700000000500
     \<lparr>body_name = Some ''Jane Doe'', body_phone = Some ''12125551234''\<rparr>
     \<lparr>cached_conn = False, collection = []\<rparr>)) = 400"
  using invalid_phone_rejected
    [of "\<lparr>body_name = Some ''Jane Doe'', body_phone = Some ''12125551234''\<rparr>"
        "''12125551234''" env_up 2 1700000000500 "[]" "\<lparr>cached_conn = False, collection = []\<rparr>"]
    jane_trim
  by (simp add: phone_match_def validate_name_def validate_phone_def env_up_def
        connectToDatabase_def truthy_def)

text \<open>
  C5 as stated fails: \<^verbatim>\<open>+7\<close> is a plus sign followed by one digit from 1 to 9, and it is
  rejected with the message about the E.164 format.
\<close>

theorem single_digit_phone_counterexample:
  "\<not> phone_match ''+7'' \<and>
   post_contacts env_up 2 1700000000500 \<lparr>body_name = Some ''Jane Doe'', body_phone = Some ''+7''\<rparr> []
     = (Response 400 (Message ''Please provide a valid phone number in E.164 format''), [])"
  using jane_trim
  by (simp add: phone_match_def post_contacts_def save_def validate_def new_Contact_def
        validate_name_def validate_phone_def Let_def)

lemma save_new:
  assumes "validate d = Inr (n, p)"
      and "\<not> list_ex (\<lambda>c. doc_id c = draft_id d \<or> phone c = p) coll"
  shows "save True d coll =
           Inr (\<lparr>doc_id = draft_id d, name = n, phone = p, createdAt = draft_createdAt d\<rparr>,
                coll @ [\<lparr>doc_id = draft_id d, name = n, phone = p, createdAt = draft_createdAt d\<rparr>])"
  using assms by (simp add: save_def Let_def)

text \<open>
  C5, as the code has it: a plus sign followed by 2 to 15 digits, the first of which is not
  0, matches the expression; and when the database answers, the name is not blank and no
  stored contact has the same \<open>_id\<close> or phone, the contact is created and the answer is 201.
\<close>

theorem e164_shape_accepted:
  assumes "list_all is_digit (d # ds)" and "d \<noteq> CHR ''0''"
      and "2 \<le> length (d # ds)" and "length (d # ds) \<le> 15"
  shows "phone_match (CHR ''+'' # d # ds) \<and>
         (db_up e \<and> body_name b = Some nm \<and> js_trim nm \<noteq> [] \<and>
          body_phone b = Some (CHR ''+'' # d # ds) \<and>
          \<not> list_ex (\<lambda>c. doc_id c = i \<or> phone c = CHR ''+'' # d # ds) coll \<and>
          collection w = coll \<longrightarrow>
            post_contacts e i now b coll =
              (Response 201
                 (ContactJson (transformContact
                    \<lparr>doc_id = i, name = js_trim nm, phone = CHR ''+'' # d # ds, createdAt = now\<rparr>)),
               coll @ [\<lparr>doc_id = i, name = js_trim nm, phone = CHR ''+'' # d # ds,
                         createdAt = now\<rparr>]) \<and>
            fst (post_contacts2 e i now b w) =
              Response 201
                 (ContactJson (transformContact
                    \<lparr>doc_id = i, name = js_trim nm, phone = CHR ''+'' # d # ds, createdAt = now\<rparr>)) \<and>
            collection (snd (post_contacts2 e i now b w)) =
              coll @ [\<lparr>doc_id = i, name = js_trim nm, phone = CHR ''+'' # d # ds,
                        createdAt = now\<rparr>])"
proof -
  have m: "phone_match (CHR ''+'' # d # ds)"
    using assms unfolding phone_match_iff by blast
  have created: "post_contacts e i now b coll =
              (Response 201
                 (ContactJson (transformContact
                    \<lparr>doc_id = i, name = js_trim nm, phone = CHR ''+'' # d # ds, createdAt = now\<rparr>)),
               coll @ [\<lparr>doc_id = i, name = js_trim nm, phone = CHR ''+'' # d # ds,
                         createdAt = now\<rparr>]) \<and>
            fst (post_contacts2 e i now b w) =
              Response 201
                 (ContactJson (transformContact
                    \<lparr>doc_id = i, name = js_trim nm, phone = CHR ''+'' # d # ds, createdAt = now\<rparr>)) \<and>
            collection (snd (post_contacts2 e i now b w)) =
              coll @ [\<lparr>doc_id = i, name = js_trim nm, phone = CHR ''+'' # d # ds,
                        createdAt = now\<rparr>]"
    if up: "db_up e" and n: "body_name b = Some nm" "js_trim nm \<noteq> []"
      and p: "body_phone b = Some (CHR ''+'' # d # ds)"
      and fresh: "\<not> list_ex (\<lambda>c. doc_id c = i \<or> phone c = CHR ''+'' # d # ds) coll"
      and w: "collection w = coll"
  proof -
    have v: "validate (new_Contact i now b) = Inr (js_trim nm, CHR ''+'' # d # ds)"
      using validate_valid [OF n p m] .
    have f: "\<not> list_ex (\<lambda>c. doc_id c = draft_id (new_Contact i now b) \<or>
                              phone c = CHR ''+'' # d # ds) coll"
      using fresh by (simp add: new_Contact_def)
    have s: "save True (new_Contact i now b) coll =
           Inr (\<lparr>doc_id = i, name = js_trim nm, phone = CHR ''+'' # d # ds, createdAt = now\<rparr>,
                coll @ [\<lparr>doc_id = i, name = js_trim nm, phone = CHR ''+'' # d # ds,
                          createdAt = now\<rparr>])"
      using save_new [OF v f] by (simp add: new_Contact_def)
    obtain w1 where c: "connectToDatabase e w = Some w1"
      using connect_when_up [OF up] by blast
    have r: "mongo_reachable e" using up by (simp add: db_up_def)
    show ?thesis
      using s up c r connect_keeps_collection [OF c] w
      by (simp add: post_contacts_def post_contacts2_def)
  qed
  show ?thesis using m created by blast
qed

theorem e164_shape_accepted_witness:
  "phone_match ''+71'' \<and>
   post_contacts env_up 2 1700000000500 \<lparr>body_name = Some ''Jane Doe'', body_phone = Some ''+71''\<rparr> [] =
     (Response 201
        (ContactJson (transformContact
           \<lparr>doc_id = 2, name = ''Jane Doe'', phone = ''+71'', createdAt = 1700000000500\<rparr>)),
      [\<lparr>doc_id = 2, name = ''Jane Doe'', phone = ''+71'', createdAt = 1700000000500\<rparr>])"
  using e164_shape_accepted
    [of "CHR ''7''" "''1''" env_up "\<lparr>body_name = Some ''Jane Doe'', body_phone = Some ''+71''\<rparr>"
        "''Jane Doe''" 2 "[]" "\<lparr>cached_conn = False, collection = []\<rparr>" 1700000000500]
    jane_trim
  by (simp add: is_digit_def env_up_def db_up_def truthy_def)

text \<open>
  C7: for every contact of the collection, deleting it by the identifier that the API shows
  for it is answered 200 with \<^verbatim>\<open>{success: true}\<close>, and deleting it again right away is
  answered 404, on both servers.
\<close>

theorem delete_then_not_found:
  assumes "distinct (map doc_id coll)" and "d \<in> set coll" and "db_up e"
      and "collection w = coll"
  shows "(\<exists>coll'.
           delete_contacts e (ObjectId_toString (doc_id d)) coll =
             (Response 200 (Success True), coll') \<and>
           delete_contacts e (ObjectId_toString (doc_id d)) coll' =
             (Response 404 (Message ''Contact not found.''), coll')) \<and>
         (\<exists>w'.
           delete_contacts2 e (ObjectId_toString (doc_id d)) w =
             (Response 200 (Success True), w') \<and>
           delete_contacts2 e (ObjectId_toString (doc_id d)) w' =
             (Response 404 (Message ''Contact not found.''), w'))"
proof -
  obtain c coll' where hit: "delete_first (doc_id d) coll = (Some c, coll')"
    using delete_first_present [OF assms(2)] by blast
  have "doc_id d \<notin> doc_id ` set coll'"
    using delete_first_removes [OF assms(1) hit] .
  then have miss: "delete_first (doc_id d) coll' = (None, coll')"
    by (rule delete_first_absent)
  have up: "truthy (MONGO_URI e)" "mongo_reachable e"
    using assms(3) by (simp_all add: db_up_def)
  have first: "delete_contacts e (ObjectId_toString (doc_id d)) coll =
          (Response 200 (Success True), coll')"
    using assms(3) hit
    by (simp add: delete_contacts_def findByIdAndDelete_def ObjectId_toString_valid
          ObjectId_roundtrip)
  have second: "delete_contacts e (ObjectId_toString (doc_id d)) coll' =
          (Response 404 (Message ''Contact not found.''), coll')"
    using assms(3) miss
    by (simp add: delete_contacts_def findByIdAndDelete_def ObjectId_toString_valid
          ObjectId_roundtrip)
  obtain w1 where c: "connectToDatabase e w = Some w1" and cc: "cached_conn w1"
    using connect_when_up [OF assms(3)] by blast
  have w1: "collection w1 = coll"
    using connect_keeps_collection [OF c] assms(4) by simp
  have first2: "delete_contacts2 e (ObjectId_toString (doc_id d)) w =
          (Response 200 (Success True), w1\<lparr>collection := coll'\<rparr>)"
    using c w1 up hit
    by (simp add: delete_contacts2_def findByIdAndDelete_def ObjectId_toString_valid
          ObjectId_roundtrip)
  have c2: "connectToDatabase e (w1\<lparr>collection := coll'\<rparr>) = Some (w1\<lparr>collection := coll'\<rparr>)"
    using cc by (simp add: connectToDatabase_def)
  have second2: "delete_contacts2 e (ObjectId_toString (doc_id d)) (w1\<lparr>collection := coll'\<rparr>) =
          (Response 404 (Message ''Contact not found.''), w1\<lparr>collection := coll'\<rparr>)"
    using c2 up miss
    by (simp add: delete_contacts2_def findByIdAndDelete_def ObjectId_toString_valid
          ObjectId_roundtrip)
  show ?thesis
    using first second first2 second2 by blast
qed

theorem delete_then_not_found_witness:
  "distinct (map doc_id [jane_doc]) \<and> jane_doc \<in> set [jane_doc] \<and> db_up env_up \<and>
   delete_contacts env_up (ObjectId_toString (doc_id jane_doc)) [jane_doc] =
     (Response 200 (Success True), []) \<and>
   delete_contacts env_up (ObjectId_toString (doc_id jane_doc)) [] =
     (Response 404 (Message ''Contact not found.''), [])"
  using delete_then_not_found
    [of "[jane_doc]" jane_doc env_up "\<lparr>cached_conn = False, collection = [jane_doc]\<rparr>"]
  by (simp add: env_up_def db_up_def truthy_def delete_contacts_def findByIdAndDelete_def
        ObjectId_toString_valid ObjectId_roundtrip)

subsection \<open>Listing\<close>

lemma names_of_listing:
  "map contact_name (map transformContact cs) = map name cs"
  by (simp add: transformContact_def)

lemma sorted_names: "map name (sort_key name coll) = sort (map name coll)"
proof -
  have "mset (map name (sort_key name coll)) = mset (map name coll)"
    by simp
  moreover have "sorted (map name (sort_key name coll))"
    by (rule sorted_sort_key)
  ultimately show ?thesis
    by (rule properties_for_sort [symmetric])
qed

text \<open>
  C6: when the database answers, the list route answers 200 with the stored contacts, each
  exactly once, in ascending order of name; the names returned are the sorted names of the
  collection, so they do not depend on the order in which the contacts were inserted.
\<close>

theorem list_sorted_by_name:
  assumes "db_up e" and "collection w = coll"
  shows "\<exists>cs. get_contacts e coll = Response 200 (ContactList cs) \<and>
              fst (get_contacts2 e w) = Response 200 (ContactList cs) \<and>
              sorted (map contact_name cs) \<and>
              mset cs = mset (map transformContact coll) \<and>
              map contact_name cs = sort (map name coll) \<and>
              (\<forall>coll'. mset coll' = mset coll \<longrightarrow>
                 (\<exists>cs'. get_contacts e coll' = Response 200 (ContactList cs') \<and>
                        map contact_name cs' = map contact_name cs))"
proof -
  let ?cs = "map transformContact (sort_key name coll)"
  obtain w1 where c: "connectToDatabase e w = Some w1"
    using connect_when_up [OF assms(1)] by blast
  have up: "mongo_reachable e" using assms(1) by (simp add: db_up_def)
  have g1: "get_contacts e c' = Response 200 (ContactList (map transformContact (sort_key name c')))"
    for c'
    using assms(1) by (simp add: get_contacts_def find_sorted_def)
  have g2: "fst (get_contacts2 e w) = Response 200 (ContactList ?cs)"
    using c up connect_keeps_collection [OF c] assms(2)
    by (simp add: get_contacts2_def find_sorted_def)
  have names: "map contact_name (map transformContact (sort_key name c')) = sort (map name c')"
    for c'
    by (simp only: names_of_listing sorted_names)
  have s: "sorted (map contact_name ?cs)"
    by (simp only: names sorted_sort)
  have m: "mset ?cs = mset (map transformContact coll)"
    by simp
  have perm: "\<exists>cs'. get_contacts e coll' = Response 200 (ContactList cs') \<and>
                        map contact_name cs' = map contact_name ?cs"
    if "mset coll' = mset coll" for coll'
  proof -
    have "mset (map name coll') = mset (map name coll)"
      using that by (metis mset_map)
    then have "sort (map name coll') = sort (map name coll)"
      by (metis properties_for_sort mset_sort sorted_sort)
    then show ?thesis
      using g1 [of coll'] names by simp
  qed
  show ?thesis
    using g1 [of coll] g2 s m names [of coll] perm by blast
qed

lemma zoe_trim: "js_trim ''Zoe'' = ''Zoe''"
  by (simp add: js_trim_def is_js_space_def)

lemma amy_trim: "js_trim ''Amy'' = ''Amy''"
  by (simp add: js_trim_def is_js_space_def)

text \<open>The example of C6: Zoe is created first, Amy second, and the list shows Amy, then Zoe.\<close>

lemma zoe_then_amy:
  "snd (post_contacts env_up 2 1700000000200 amy
          (snd (post_contacts env_up 1 1700000000100 zoe []))) = [zoe_doc, amy_doc]"
  using zoe_trim amy_trim
  by (simp add: post_contacts_def save_def validate_def new_Contact_def validate_name_def
        validate_phone_def phone_match_def is_digit_def Let_def env_up_def db_up_def truthy_def
        zoe_def amy_def zoe_doc_def amy_doc_def)

lemma list_zoe_amy:
  "get_contacts env_up [zoe_doc, amy_doc] =
     Response 200 (ContactList [transformContact amy_doc, transformContact zoe_doc])"
  by (simp add: get_contacts_def find_sorted_def env_up_def db_up_def truthy_def
        zoe_doc_def amy_doc_def)

theorem list_sorted_by_name_witness:
  "db_up env_up \<and>
   get_contacts env_up (snd (post_contacts env_up 2 1700000000200 amy
                               (snd (post_contacts env_up 1 1700000000100 zoe [])))) =
     Response 200 (ContactList [transformContact amy_doc, transformContact zoe_doc]) \<and>
   map contact_name [transformContact amy_doc, transformContact zoe_doc] = [''Amy'', ''Zoe''] \<and>
   sorted (map contact_name [transformContact amy_doc, transformContact zoe_doc])"
proof -
  have up: "db_up env_up"
    by (simp add: env_up_def db_up_def truthy_def)
  have w: "collection \<lparr>cached_conn = False, collection = [zoe_doc, amy_doc]\<rparr> = [zoe_doc, amy_doc]"
    by simp
  obtain cs where cs: "get_contacts env_up [zoe_doc, amy_doc] = Response 200 (ContactList cs)"
      and sorted_cs: "sorted (map contact_name cs)"
    using list_sorted_by_name [OF up w] by blast
  have "cs = [transformContact amy_doc, transformContact zoe_doc]"
    using cs list_zoe_amy by simp
  with sorted_cs have "sorted (map contact_name [transformContact amy_doc, transformContact zoe_doc])"
    by simp
  moreover have "map contact_name [transformContact amy_doc, transformContact zoe_doc] =
                   [''Amy'', ''Zoe'']"
    by (simp add: transformContact_def amy_doc_def zoe_doc_def)
  ultimately show ?thesis
    using up list_zoe_amy zoe_then_amy by simp
qed

subsection \<open>The collection invariant\<close>

lemma validate_accepts:
  "validate d = Inr (n, p) \<Longrightarrow> phone_match p \<and> n \<noteq> []"
  by (auto simp add: validate_def validate_name_def validate_phone_def Let_def
        split: option.splits if_splits)

lemma save_result:
  assumes "save up d coll = Inr (doc, coll')"
  shows "coll' = coll @ [doc] \<and> doc_id doc \<notin> doc_id ` set coll \<and>
         phone doc \<notin> phone ` set coll \<and> phone_match (phone doc) \<and> name doc \<noteq> []"
proof (cases "validate d")
  case (Inl errs)
  with assms show ?thesis by (simp add: save_def)
next
  case (Inr np)
  obtain n p where np: "np = (n, p)" by (cases np)
  from Inr np validate_accepts [of d n p] have ok: "phone_match p" "n \<noteq> []" by simp_all
  from assms Inr np ok show ?thesis
    by (auto simp add: save_def Let_def list_ex_iff split: if_splits)
qed

text \<open>
  The invariant holds of the empty collection and is kept by creating and by deleting, so
  every collection that is only written through these routes satisfies it.
\<close>

lemma collection_ok_empty: "collection_ok []"
  by (simp add: collection_ok_def)

lemma collection_ok_snoc:
  "collection_ok coll \<Longrightarrow> doc_id doc \<notin> doc_id ` set coll \<Longrightarrow> phone doc \<notin> phone ` set coll \<Longrightarrow>
   phone_match (phone doc) \<Longrightarrow> name doc \<noteq> [] \<Longrightarrow> collection_ok (coll @ [doc])"
  by (simp add: collection_ok_def)

lemma post_contacts_keeps_ok:
  assumes "collection_ok coll"
  shows "collection_ok (snd (post_contacts e i now b coll))"
proof (cases "save (db_up e) (new_Contact i now b) coll")
  case (Inl err)
  with assms show ?thesis by (cases err) (simp_all add: post_contacts_def)
next
  case (Inr r)
  obtain doc coll' where r: "r = (doc, coll')" by (cases r)
  from save_result [of "db_up e" "new_Contact i now b" coll doc coll'] Inr r assms
  have "collection_ok coll'"
    by (simp add: collection_ok_snoc)
  with Inr r show ?thesis by (simp add: post_contacts_def)
qed

lemma post_contacts2_keeps_ok:
  assumes "collection_ok (collection w)"
  shows "collection_ok (collection (snd (post_contacts2 e i now b w)))"
proof (cases "connectToDatabase e w")
  case None
  with assms show ?thesis by (simp add: post_contacts2_def)
next
  case (Some w1)
  have w1: "collection w1 = collection w"
    using connect_keeps_collection [OF Some] .
  show ?thesis
  proof (cases "save (mongo_reachable e) (new_Contact i now b) (collection w1)")
    case (Inl err)
    with assms Some w1 show ?thesis by (cases err) (simp_all add: post_contacts2_def)
  next
    case (Inr r)
    obtain doc coll' where r: "r = (doc, coll')" by (cases r)
    from save_result [of "mongo_reachable e" "new_Contact i now b" "collection w1" doc coll']
      Inr r assms w1
    have "collection_ok coll'"
      by (simp add: collection_ok_snoc)
    with Some Inr r show ?thesis by (simp add: post_contacts2_def)
  qed
qed

lemma delete_first_keeps_ok:
  "collection_ok coll \<Longrightarrow> delete_first i coll = (r, coll') \<Longrightarrow> collection_ok coll'"
proof (induction coll arbitrary: r coll')
  case Nil
  then show ?case by simp
next
  case (Cons d ds)
  have tail: "collection_ok ds"
    using Cons.prems(1) by (simp add: collection_ok_def)
  show ?case
  proof (cases "doc_id d = i")
    case True
    with Cons.prems tail show ?thesis by simp
  next
    case False
    obtain r' ds' where rec: "delete_first i ds = (r', ds')"
      by (cases "delete_first i ds")
    with False Cons.prems(2) have c: "coll' = d # ds'" by simp
    have ok: "collection_ok ds'"
      using Cons.IH [OF tail rec] .
    have sub: "set ds' \<subseteq> set ds"
      using delete_first_subset [OF rec] .
    show ?thesis
      using Cons.prems(1) ok sub unfolding c collection_ok_def by auto
  qed
qed

lemma delete_contacts_keeps_ok:
  assumes "collection_ok coll"
  shows "collection_ok (snd (delete_contacts e i coll))"
proof (cases "ObjectId_isValid i \<and> db_up e")
  case False
  with assms show ?thesis
    by (auto simp add: delete_contacts_def findByIdAndDelete_def)
next
  case True
  obtain r coll' where d: "delete_first (ObjectId_of_string i) coll = (r, coll')"
    by (cases "delete_first (ObjectId_of_string i) coll")
  have "collection_ok coll'"
    using delete_first_keeps_ok [OF assms d] .
  with True d show ?thesis
    by (cases r) (simp_all add: delete_contacts_def findByIdAndDelete_def)
qed

end
